theory Spec2Isabelle
  imports Main "HOL-Library.AList"
begin

section \<open>Python values and failures\<close>

text \<open>
  The module \<^verbatim>\<open>storage.py\<close> keeps two integer counters per user. Python integers are
  unbounded, so counters and amounts are \<^typ>\<open>int\<close>. Every exception a method can raise is
  a value of \<open>error\<close>; a method that can raise returns \<open>error + 'a\<close>, \<open>Inl\<close> carrying the
  exception.
\<close>

datatype error =
    KeyError        \<comment> \<open>\<^verbatim>\<open>d[k]\<close> on a missing key\<close>
  | TypeError       \<comment> \<open>\<^verbatim>\<open>int(None)\<close>\<close>
  | ResponseError   \<comment> \<open>an error reply of the Redis server\<close>

text \<open>
  A Python \<^verbatim>\<open>dict\<close> keeps its keys in insertion order and holds each key once. It is an
  association list: a new key goes to the end, an assignment to a present key keeps the
  key's position (\<^const>\<open>AList.update\<close> does both).
\<close>

type_synonym 'v pydict = "(string \<times> 'v) list"

definition dict_init :: "'v pydict" where
  \<comment> \<open>\<^verbatim>\<open>dict()\<close> and \<^verbatim>\<open>{}\<close>\<close>
  "dict_init = []"

definition dict_contains :: "'v pydict \<Rightarrow> string \<Rightarrow> bool" where
  \<comment> \<open>\<^verbatim>\<open>k in d\<close>\<close>
  "dict_contains d k = (map_of d k \<noteq> None)"

definition dict_getitem :: "'v pydict \<Rightarrow> string \<Rightarrow> error + 'v" where
  \<comment> \<open>\<^verbatim>\<open>d[k]\<close>\<close>
  "dict_getitem d k = (case map_of d k of None \<Rightarrow> Inl KeyError | Some v \<Rightarrow> Inr v)"

definition dict_get :: "'v pydict \<Rightarrow> string \<Rightarrow> 'v \<Rightarrow> 'v" where
  \<comment> \<open>\<^verbatim>\<open>d.get(k, default)\<close>\<close>
  "dict_get d k dflt = (case map_of d k of None \<Rightarrow> dflt | Some v \<Rightarrow> v)"

definition dict_setitem :: "'v pydict \<Rightarrow> string \<Rightarrow> 'v \<Rightarrow> 'v pydict" where
  \<comment> \<open>\<^verbatim>\<open>d[k] = v\<close>\<close>
  "dict_setitem d k v = AList.update k v d"

definition dict_setdefault :: "'v pydict \<Rightarrow> string \<Rightarrow> 'v \<Rightarrow> 'v \<times> 'v pydict" where
  \<comment> \<open>\<^verbatim>\<open>d.setdefault(k, default)\<close>: the value under \<open>k\<close>, inserted first when missing\<close>
  "dict_setdefault d k dflt =
     (case map_of d k of None \<Rightarrow> (dflt, d @ [(k, dflt)]) | Some v \<Rightarrow> (v, d))"

definition dict_items :: "'v pydict \<Rightarrow> (string \<times> 'v) list" where
  \<comment> \<open>\<^verbatim>\<open>d.items()\<close>\<close>
  "dict_items d = d"

text \<open>
  A list comprehension \<^verbatim>\<open>[f(x) for x in xs]\<close> whose body can raise: the first exception
  ends it.
\<close>

fun list_comp :: "('a \<Rightarrow> error + 'b) \<Rightarrow> 'a list \<Rightarrow> error + 'b list" where
  "list_comp f [] = Inr []"
| "list_comp f (x # xs) =
     (case f x of
        Inl e \<Rightarrow> Inl e
      | Inr y \<Rightarrow> (case list_comp f xs of Inl e \<Rightarrow> Inl e | Inr ys \<Rightarrow> Inr (y # ys)))"

definition POINTS_USED :: string where
  "POINTS_USED = ''POINTS_USED''"

definition POINTS_RECEIVED :: string where
  "POINTS_RECEIVED = ''POINTS_RECEIVED''"

section \<open>InMemoryStorage\<close>

text \<open>
  \<^verbatim>\<open>self._data\<close> is a dict from user ids to dicts from field names to integers.
  The constructor sets it to \<^verbatim>\<open>dict()\<close>. Methods that assign take the store and return the
  new one.
\<close>

type_synonym inmemory = "int pydict pydict"

definition InMemoryStorage_init :: inmemory where
  "InMemoryStorage_init = dict_init"

definition InMemoryStorage_user_exists :: "inmemory \<Rightarrow> string \<Rightarrow> bool" where
  "InMemoryStorage_user_exists data user_id = dict_contains data user_id"

definition InMemoryStorage_get_user_points_used :: "inmemory \<Rightarrow> string \<Rightarrow> error + int" where
  "InMemoryStorage_get_user_points_used data user_id =
     (case dict_getitem data user_id of
        Inl e \<Rightarrow> Inl e
      | Inr user_data \<Rightarrow> Inr (dict_get user_data POINTS_USED 0))"

text \<open>
  \<^verbatim>\<open>setdefault\<close> returns the inner dict that the store holds under \<open>user_id\<close> (a new empty
  one when the user is missing), and the assignment changes that dict in place. No other
  reference to an inner dict exists, so the effect is the store with the changed inner dict
  under \<open>user_id\<close>.
\<close>

definition InMemoryStorage_add_user_points_used :: "inmemory \<Rightarrow> string \<Rightarrow> int \<Rightarrow> inmemory" where
  "InMemoryStorage_add_user_points_used data user_id num =
     (let (user_data, data1) = dict_setdefault data user_id dict_init;
          user_data' = dict_setitem user_data POINTS_USED (dict_get user_data POINTS_USED 0 + num)
      in dict_setitem data1 user_id user_data')"

definition InMemoryStorage_get_user_points_received :: "inmemory \<Rightarrow> string \<Rightarrow> error + int" where
  "InMemoryStorage_get_user_points_received data user_id =
     (case dict_getitem data user_id of
        Inl e \<Rightarrow> Inl e
      | Inr user_data \<Rightarrow> Inr (dict_get user_data POINTS_RECEIVED 0))"

definition InMemoryStorage_add_user_points_received :: "inmemory \<Rightarrow> string \<Rightarrow> int \<Rightarrow> inmemory" where
  "InMemoryStorage_add_user_points_received data user_id num =
     (let (user_data, data1) = dict_setdefault data user_id dict_init;
          user_data' = dict_setitem user_data POINTS_RECEIVED
                         (dict_get user_data POINTS_RECEIVED 0 + num)
      in dict_setitem data1 user_id user_data')"

definition InMemoryStorage_get_users_and_scores :: "inmemory \<Rightarrow> error + (string \<times> int) list" where
  "InMemoryStorage_get_users_and_scores data =
     list_comp (\<lambda>(k, v). case dict_getitem v POINTS_RECEIVED of
                           Inl e \<Rightarrow> Inl e
                         | Inr r \<Rightarrow> Inr (k, r))
       (dict_items data)"


text \<open>
  The inner dict that \<^verbatim>\<open>setdefault(user_id, {})\<close> hands out: the stored one, or the new
  empty one. The lemmas below describe the methods through it.
\<close>

definition user_data_of :: "inmemory \<Rightarrow> string \<Rightarrow> int pydict" where
  "user_data_of data user_id = fst (dict_setdefault data user_id dict_init)"

text \<open>
  The functions above give what a method returns, and what a write leaves behind, as a
  function of the store. Below, each method body is run as a program on the object:
  every dict operation of the body takes \<^verbatim>\<open>self._data\<close> and hands on the dict it leaves,
  so a method's effect on the store is what the operations of its body do, in their order.
  An exception ends the body and keeps the store reached so far.
\<close>

type_synonym 'a prog = "inmemory \<Rightarrow> (error + 'a) \<times> inmemory"

definition returns :: "'a \<Rightarrow> 'a prog" where
  \<comment> \<open>\<^verbatim>\<open>return x\<close>\<close>
  "returns x data = (Inr x, data)"

definition then_do :: "'a prog \<Rightarrow> ('a \<Rightarrow> 'b prog) \<Rightarrow> 'b prog" where
  \<comment> \<open>evaluate one operation, then the rest of the body with its value\<close>
  "then_do m f data =
     (case m data of (Inl e, data1) \<Rightarrow> (Inl e, data1) | (Inr x, data1) \<Rightarrow> f x data1)"

definition data_contains :: "string \<Rightarrow> bool prog" where
  \<comment> \<open>\<^verbatim>\<open>user_id in self._data\<close>\<close>
  "data_contains user_id data = (Inr (dict_contains data user_id), data)"

definition data_getitem :: "string \<Rightarrow> int pydict prog" where
  \<comment> \<open>\<^verbatim>\<open>self._data[user_id]\<close>: a lookup inserts nothing\<close>
  "data_getitem user_id data = (dict_getitem data user_id, data)"

definition data_setdefault :: "string \<Rightarrow> int pydict \<Rightarrow> int pydict prog" where
  \<comment> \<open>\<^verbatim>\<open>self._data.setdefault(user_id, default)\<close>: inserts the default when the key is missing\<close>
  "data_setdefault user_id dflt data =
     (case dict_setdefault data user_id dflt of (v, data1) \<Rightarrow> (Inr v, data1))"

definition data_items :: "(string \<times> int pydict) list prog" where
  \<comment> \<open>\<^verbatim>\<open>self._data.items()\<close>\<close>
  "data_items data = (Inr (dict_items data), data)"

definition inner_getitem :: "int pydict \<Rightarrow> string \<Rightarrow> int prog" where
  \<comment> \<open>\<^verbatim>\<open>v[field]\<close> on an inner dict\<close>
  "inner_getitem v field data = (dict_getitem v field, data)"

definition inner_get :: "int pydict \<Rightarrow> string \<Rightarrow> int \<Rightarrow> int prog" where
  \<comment> \<open>\<^verbatim>\<open>user_data.get(field, default)\<close> on an inner dict\<close>
  "inner_get user_data field dflt data = (Inr (dict_get user_data field dflt), data)"

definition inner_setitem :: "string \<Rightarrow> int pydict \<Rightarrow> string \<Rightarrow> int \<Rightarrow> unit prog" where
  \<comment> \<open>\<^verbatim>\<open>user_data[field] = x\<close>, where \<open>user_data\<close> is the inner dict the store holds under
      \<open>user_id\<close>: the assignment changes that dict in place\<close>
  "inner_setitem user_id user_data field x data =
     (Inr (), dict_setitem data user_id (dict_setitem user_data field x))"

fun comprehension :: "('a \<Rightarrow> 'b prog) \<Rightarrow> 'a list \<Rightarrow> 'b list prog" where
  \<comment> \<open>\<^verbatim>\<open>[body(x) for x in xs]\<close>\<close>
  "comprehension body [] = returns []"
| "comprehension body (x # xs) =
     then_do (body x) (\<lambda>y. then_do (comprehension body xs) (\<lambda>ys. returns (y # ys)))"

definition InMemoryStorage_user_exists_method :: "string \<Rightarrow> bool prog" where
  "InMemoryStorage_user_exists_method user_id = data_contains user_id"

definition InMemoryStorage_get_user_points_used_method :: "string \<Rightarrow> int prog" where
  "InMemoryStorage_get_user_points_used_method user_id =
     then_do (data_getitem user_id) (\<lambda>user_data. inner_get user_data POINTS_USED 0)"

definition InMemoryStorage_add_user_points_used_method :: "string \<Rightarrow> int \<Rightarrow> unit prog" where
  "InMemoryStorage_add_user_points_used_method user_id num =
     then_do (data_setdefault user_id dict_init) (\<lambda>user_data.
     then_do (inner_get user_data POINTS_USED 0) (\<lambda>old.
     inner_setitem user_id user_data POINTS_USED (old + num)))"

definition InMemoryStorage_get_user_points_received_method :: "string \<Rightarrow> int prog" where
  "InMemoryStorage_get_user_points_received_method user_id =
     then_do (data_getitem user_id) (\<lambda>user_data. inner_get user_data POINTS_RECEIVED 0)"

definition InMemoryStorage_add_user_points_received_method :: "string \<Rightarrow> int \<Rightarrow> unit prog" where
  "InMemoryStorage_add_user_points_received_method user_id num =
     then_do (data_setdefault user_id dict_init) (\<lambda>user_data.
     then_do (inner_get user_data POINTS_RECEIVED 0) (\<lambda>old.
     inner_setitem user_id user_data POINTS_RECEIVED (old + num)))"

definition InMemoryStorage_get_users_and_scores_method :: "(string \<times> int) list prog" where
  "InMemoryStorage_get_users_and_scores_method =
     then_do data_items
       (comprehension (\<lambda>(k, v). then_do (inner_getitem v POINTS_RECEIVED) (\<lambda>r. returns (k, r))))"

text \<open>
  A caller holds one storage object and invokes its methods one after another. A call
  runs the method's body on the object's store: it returns a value or raises, and leaves
  the store behind.
\<close>

datatype call =
    UserExists string
  | GetUserPointsUsed string
  | AddUserPointsUsed string int
  | GetUserPointsReceived string
  | AddUserPointsReceived string int
  | GetUsersAndScores

datatype retval =
    RetBool bool
  | RetInt int
  | RetNone
  | RetPairs "(string \<times> int) list"

definition returning :: "('a \<Rightarrow> retval) \<Rightarrow> error + 'a \<Rightarrow> error + retval" where
  "returning ret r = (case r of Inl e \<Rightarrow> Inl e | Inr x \<Rightarrow> Inr (ret x))"

definition invoke :: "('a \<Rightarrow> retval) \<Rightarrow> 'a prog \<Rightarrow> retval prog" where
  "invoke ret m data = (case m data of (r, data1) \<Rightarrow> (returning ret r, data1))"

fun InMemoryStorage_call :: "call \<Rightarrow> retval prog" where
  "InMemoryStorage_call (UserExists u) = invoke RetBool (InMemoryStorage_user_exists_method u)"
| "InMemoryStorage_call (GetUserPointsUsed u) =
     invoke RetInt (InMemoryStorage_get_user_points_used_method u)"
| "InMemoryStorage_call (AddUserPointsUsed u n) =
     invoke (\<lambda>x. RetNone) (InMemoryStorage_add_user_points_used_method u n)"
| "InMemoryStorage_call (GetUserPointsReceived u) =
     invoke RetInt (InMemoryStorage_get_user_points_received_method u)"
| "InMemoryStorage_call (AddUserPointsReceived u n) =
     invoke (\<lambda>x. RetNone) (InMemoryStorage_add_user_points_received_method u n)"
| "InMemoryStorage_call GetUsersAndScores =
     invoke RetPairs InMemoryStorage_get_users_and_scores_method"

text \<open>The store after a sequence of calls; a call that raised is over, the next one runs.\<close>

fun InMemoryStorage_run :: "call list \<Rightarrow> inmemory \<Rightarrow> inmemory" where
  "InMemoryStorage_run [] data = data"
| "InMemoryStorage_run (c # cs) data = InMemoryStorage_run cs (snd (InMemoryStorage_call c data))"

fun amount_nonneg :: "call \<Rightarrow> bool" where
  "amount_nonneg (AddUserPointsUsed u n) = (0 \<le> n)"
| "amount_nonneg (AddUserPointsReceived u n) = (0 \<le> n)"
| "amount_nonneg c = True"

section \<open>RedisStorage\<close>

text \<open>
  The Redis server is not part of the module; the model keeps what the six commands the
  module sends depend on. The keyspace maps a key to a hash or to a set. A hash field holds
  the decimal text of an integer (the module writes nothing else), kept here as the integer;
  a set is the list of its members in the order \<^verbatim>\<open>smembers\<close> hands them out (neither the
  server nor the client fixes that order; the list is one of the possible orders, and no
  statement below is about a set with more than one member). A command
  on a key of the other type is answered with an error (WRONGTYPE), which the client raises
  as \<^verbatim>\<open>ResponseError\<close>. \<^verbatim>\<open>HINCRBY\<close> works on signed 64-bit integers and answers with an
  error when the amount, the stored value or the sum is outside that range.
\<close>

datatype rvalue = RHash "int pydict" | RSet "string list"

type_synonym redis = "rvalue pydict"

definition redis_init :: redis where
  \<comment> \<open>a server with no keys\<close>
  "redis_init = []"

definition in_int64 :: "int \<Rightarrow> bool" where
  "in_int64 n = (- (2 ^ 63) \<le> n \<and> n < 2 ^ 63)"

definition redis_exists :: "redis \<Rightarrow> string \<Rightarrow> bool" where
  \<comment> \<open>\<^verbatim>\<open>EXISTS key\<close>: the number of keys found, 1 or 0; kept as its truth value\<close>
  "redis_exists db key = (map_of db key \<noteq> None)"

definition redis_hget :: "redis \<Rightarrow> string \<Rightarrow> string \<Rightarrow> error + int option" where
  \<comment> \<open>\<^verbatim>\<open>HGET key field\<close>: \<^verbatim>\<open>None\<close> when the key or the field is missing\<close>
  "redis_hget db key field =
     (case map_of db key of
        None \<Rightarrow> Inr None
      | Some (RHash h) \<Rightarrow> Inr (map_of h field)
      | Some (RSet s) \<Rightarrow> Inl ResponseError)"

definition redis_hincrby :: "redis \<Rightarrow> string \<Rightarrow> string \<Rightarrow> int \<Rightarrow> (error + int) \<times> redis" where
  \<comment> \<open>\<^verbatim>\<open>HINCRBY key field amount\<close>: a missing key is a new hash, a missing field counts as 0\<close>
  "redis_hincrby db key field amount =
     (if in_int64 amount then
        (case map_of db key of
           None \<Rightarrow> (Inr amount, AList.update key (RHash [(field, amount)]) db)
         | Some (RSet s) \<Rightarrow> (Inl ResponseError, db)
         | Some (RHash h) \<Rightarrow>
             (let old = (case map_of h field of None \<Rightarrow> 0 | Some v \<Rightarrow> v) in
              if in_int64 old \<and> in_int64 (old + amount)
              then (Inr (old + amount),
                    AList.update key (RHash (AList.update field (old + amount) h)) db)
              else (Inl ResponseError, db)))
      else (Inl ResponseError, db))"

definition redis_hmset :: "redis \<Rightarrow> string \<Rightarrow> int pydict \<Rightarrow> (error + unit) \<times> redis" where
  \<comment> \<open>\<^verbatim>\<open>HMSET key field value ...\<close>: sets the given fields, creating the hash when missing\<close>
  "redis_hmset db key mapping =
     (case map_of db key of
        None \<Rightarrow> (Inr (), AList.update key (RHash (fold (\<lambda>(f, v). AList.update f v) mapping [])) db)
      | Some (RSet s) \<Rightarrow> (Inl ResponseError, db)
      | Some (RHash h) \<Rightarrow>
          (Inr (), AList.update key (RHash (fold (\<lambda>(f, v). AList.update f v) mapping h)) db))"

definition redis_sadd :: "redis \<Rightarrow> string \<Rightarrow> string \<Rightarrow> (error + unit) \<times> redis" where
  \<comment> \<open>\<^verbatim>\<open>SADD key member\<close>: a member already in the set is not added again\<close>
  "redis_sadd db key member =
     (case map_of db key of
        None \<Rightarrow> (Inr (), AList.update key (RSet [member]) db)
      | Some (RHash h) \<Rightarrow> (Inl ResponseError, db)
      | Some (RSet s) \<Rightarrow>
          (Inr (), if member \<in> set s then db else AList.update key (RSet (s @ [member])) db))"

definition redis_smembers :: "redis \<Rightarrow> string \<Rightarrow> error + string list" where
  \<comment> \<open>\<^verbatim>\<open>SMEMBERS key\<close>: the empty set when the key is missing\<close>
  "redis_smembers db key =
     (case map_of db key of
        None \<Rightarrow> Inr []
      | Some (RHash h) \<Rightarrow> Inl ResponseError
      | Some (RSet s) \<Rightarrow> Inr s)"

definition py_int :: "int option \<Rightarrow> error + int" where
  \<comment> \<open>\<^verbatim>\<open>int(x)\<close> for the reply of \<^verbatim>\<open>hget\<close>: \<^verbatim>\<open>int(None)\<close> raises\<close>
  "py_int x = (case x of None \<Rightarrow> Inl TypeError | Some v \<Rightarrow> Inr v)"

definition USERS_LIST_KEY :: string where
  "USERS_LIST_KEY = ''USERS_LIST''"

definition RedisStorage_create_user_entry :: "redis \<Rightarrow> string \<Rightarrow> (error + unit) \<times> redis" where
  \<comment> \<open>\<^verbatim>\<open>_create_user_entry\<close>; no method of the module calls it\<close>
  "RedisStorage_create_user_entry db user_id =
     (case redis_hmset db user_id [(POINTS_USED, 0), (POINTS_RECEIVED, 0)] of
        (Inl e, db1) \<Rightarrow> (Inl e, db1)
      | (Inr u, db1) \<Rightarrow> redis_sadd db1 USERS_LIST_KEY user_id)"

definition RedisStorage_user_exists :: "redis \<Rightarrow> string \<Rightarrow> bool" where
  "RedisStorage_user_exists db user_id = redis_exists db user_id"

definition RedisStorage_get_user_points_used :: "redis \<Rightarrow> string \<Rightarrow> error + int" where
  "RedisStorage_get_user_points_used db user_id =
     (case redis_hget db user_id POINTS_USED of Inl e \<Rightarrow> Inl e | Inr x \<Rightarrow> py_int x)"

definition RedisStorage_add_user_points_used ::
  "redis \<Rightarrow> string \<Rightarrow> int \<Rightarrow> (error + unit) \<times> redis" where
  "RedisStorage_add_user_points_used db user_id num =
     (case redis_hincrby db user_id POINTS_USED num of
        (Inl e, db1) \<Rightarrow> (Inl e, db1)
      | (Inr v, db1) \<Rightarrow> (Inr (), db1))"

definition RedisStorage_get_user_points_received :: "redis \<Rightarrow> string \<Rightarrow> error + int" where
  "RedisStorage_get_user_points_received db user_id =
     (case redis_hget db user_id POINTS_RECEIVED of Inl e \<Rightarrow> Inl e | Inr x \<Rightarrow> py_int x)"

definition RedisStorage_add_user_points_received ::
  "redis \<Rightarrow> string \<Rightarrow> int \<Rightarrow> (error + unit) \<times> redis" where
  "RedisStorage_add_user_points_received db user_id num =
     (case redis_hincrby db user_id POINTS_RECEIVED num of
        (Inl e, db1) \<Rightarrow> (Inl e, db1)
      | (Inr v, db1) \<Rightarrow> (Inr (), db1))"

definition RedisStorage_get_users_and_scores :: "redis \<Rightarrow> error + (string \<times> int) list" where
  "RedisStorage_get_users_and_scores db =
     (case redis_smembers db USERS_LIST_KEY of
        Inl e \<Rightarrow> Inl e
      | Inr users \<Rightarrow>
          list_comp (\<lambda>user. case RedisStorage_get_user_points_received db user of
                              Inl e \<Rightarrow> Inl e
                            | Inr r \<Rightarrow> Inr (user, r))
            users)"

fun RedisStorage_call :: "call \<Rightarrow> redis \<Rightarrow> (error + retval) \<times> redis" where
  "RedisStorage_call (UserExists u) db =
     (Inr (RetBool (RedisStorage_user_exists db u)), db)"
| "RedisStorage_call (GetUserPointsUsed u) db =
     (returning RetInt (RedisStorage_get_user_points_used db u), db)"
| "RedisStorage_call (AddUserPointsUsed u n) db =
     (case RedisStorage_add_user_points_used db u n of
        (r, db1) \<Rightarrow> (returning (\<lambda>x. RetNone) r, db1))"
| "RedisStorage_call (GetUserPointsReceived u) db =
     (returning RetInt (RedisStorage_get_user_points_received db u), db)"
| "RedisStorage_call (AddUserPointsReceived u n) db =
     (case RedisStorage_add_user_points_received db u n of
        (r, db1) \<Rightarrow> (returning (\<lambda>x. RetNone) r, db1))"
| "RedisStorage_call GetUsersAndScores db =
     (returning RetPairs (RedisStorage_get_users_and_scores db), db)"

fun RedisStorage_run :: "call list \<Rightarrow> redis \<Rightarrow> redis" where
  "RedisStorage_run [] db = db"
| "RedisStorage_run (c # cs) db = RedisStorage_run cs (snd (RedisStorage_call c db))"


section \<open>The in-memory store: what a write does\<close>

lemma fields_differ: "POINTS_USED \<noteq> POINTS_RECEIVED" "POINTS_RECEIVED \<noteq> POINTS_USED"
  by (simp_all add: POINTS_USED_def POINTS_RECEIVED_def)

lemma user_data_of_eq:
  "user_data_of data u = (case map_of data u of None \<Rightarrow> [] | Some r \<Rightarrow> r)"
  by (simp add: user_data_of_def dict_setdefault_def dict_init_def split: option.splits)

lemma update_append_new:
  "map_of d k = None \<Longrightarrow> AList.update k v (d @ [(k, w)]) = AList.update k v d"
  by (induction d) (auto split: if_splits)

lemma dict_get_update:
  "dict_get (AList.update k v r) k' dflt = (if k' = k then v else dict_get r k' dflt)"
  by (simp add: dict_get_def update_conv')

lemma add_used_eq:
  "InMemoryStorage_add_user_points_used d u n =
     AList.update u
       (AList.update POINTS_USED (dict_get (user_data_of d u) POINTS_USED 0 + n) (user_data_of d u)) d"
  by (auto simp: InMemoryStorage_add_user_points_used_def dict_setdefault_def dict_setitem_def
        user_data_of_eq dict_init_def update_append_new split: option.splits)

lemma add_received_eq:
  "InMemoryStorage_add_user_points_received d u n =
     AList.update u
       (AList.update POINTS_RECEIVED (dict_get (user_data_of d u) POINTS_RECEIVED 0 + n)
          (user_data_of d u)) d"
  by (auto simp: InMemoryStorage_add_user_points_received_def dict_setdefault_def
        dict_setitem_def user_data_of_eq dict_init_def update_append_new split: option.splits)

lemma get_used_eq:
  "InMemoryStorage_get_user_points_used d u =
     (if InMemoryStorage_user_exists d u then Inr (dict_get (user_data_of d u) POINTS_USED 0)
      else Inl KeyError)"
  by (auto simp: InMemoryStorage_get_user_points_used_def InMemoryStorage_user_exists_def
       dict_contains_def dict_getitem_def user_data_of_eq split: option.splits)

lemma get_received_eq:
  "InMemoryStorage_get_user_points_received d u =
     (if InMemoryStorage_user_exists d u then Inr (dict_get (user_data_of d u) POINTS_RECEIVED 0)
      else Inl KeyError)"
  by (auto simp: InMemoryStorage_get_user_points_received_def InMemoryStorage_user_exists_def
       dict_contains_def dict_getitem_def user_data_of_eq split: option.splits)

lemma user_data_of_add_used:
  "user_data_of (InMemoryStorage_add_user_points_used d u n) u' =
     (if u' = u
      then AList.update POINTS_USED (dict_get (user_data_of d u) POINTS_USED 0 + n) (user_data_of d u)
      else user_data_of d u')"
  by (simp add: add_used_eq user_data_of_eq update_conv')

lemma user_data_of_add_received:
  "user_data_of (InMemoryStorage_add_user_points_received d u n) u' =
     (if u' = u
      then AList.update POINTS_RECEIVED (dict_get (user_data_of d u) POINTS_RECEIVED 0 + n)
             (user_data_of d u)
      else user_data_of d u')"
  by (simp add: add_received_eq user_data_of_eq update_conv')

lemma exists_add_used:
  "InMemoryStorage_user_exists (InMemoryStorage_add_user_points_used d u n) u' =
     (u' = u \<or> InMemoryStorage_user_exists d u')"
  by (simp add: add_used_eq InMemoryStorage_user_exists_def dict_contains_def update_conv')

lemma exists_add_received:
  "InMemoryStorage_user_exists (InMemoryStorage_add_user_points_received d u n) u' =
     (u' = u \<or> InMemoryStorage_user_exists d u')"
  by (simp add: add_received_eq InMemoryStorage_user_exists_def dict_contains_def update_conv')

lemma fresh_store:
  "\<not> InMemoryStorage_user_exists InMemoryStorage_init u"
  "user_data_of InMemoryStorage_init u = []"
  by (simp_all add: InMemoryStorage_init_def InMemoryStorage_user_exists_def dict_contains_def
        dict_init_def user_data_of_eq)

lemma used_after_adds:
  "dict_get (user_data_of (foldl (\<lambda>d n. InMemoryStorage_add_user_points_used d u n) d ns) u)
        POINTS_USED 0
     = dict_get (user_data_of d u) POINTS_USED 0 + sum_list ns"
  by (induction ns arbitrary: d) (simp_all add: user_data_of_add_used dict_get_update)

lemma exists_after_adds:
  "InMemoryStorage_user_exists (foldl (\<lambda>d n. InMemoryStorage_add_user_points_used d u n) d ns) u
     = (ns \<noteq> [] \<or> InMemoryStorage_user_exists d u)"
  by (induction ns arbitrary: d) (auto simp add: exists_add_used)

lemma update_absent: "map_of d k = None \<Longrightarrow> AList.update k v d = d @ [(k, v)]"
  by (induction d) (auto split: if_splits)

lemma count_absent: "map_of d u = None \<Longrightarrow> count_list (map fst d) u = 0"
  by (induction d) (auto split: if_splits)

lemma filter_others_update:
  "filter (\<lambda>(k, v). k \<noteq> u) (AList.update u x d) = filter (\<lambda>(k, v). k \<noteq> u) d"
  by (induction d) auto

section \<open>The in-memory store: enumeration\<close>

lemma list_comp_snoc:
  "list_comp f (xs @ [y]) =
     (case list_comp f xs of
        Inl e \<Rightarrow> Inl e
      | Inr ps \<Rightarrow> (case f y of Inl e \<Rightarrow> Inl e | Inr p \<Rightarrow> Inr (ps @ [p])))"
  by (induction xs) (auto split: sum.splits)

lemma scores_all_present:
  "list_all (\<lambda>(k, v). dict_contains v POINTS_RECEIVED) (dict_items d) \<Longrightarrow>
     \<exists>ps. InMemoryStorage_get_users_and_scores d = Inr ps \<and> map fst ps = map fst d"
  unfolding InMemoryStorage_get_users_and_scores_def dict_items_def
  by (induction d) (auto simp: dict_contains_def dict_getitem_def split: option.splits)

lemma scores_snoc:
  "InMemoryStorage_get_users_and_scores (d @ [(u, r)]) =
     (case InMemoryStorage_get_users_and_scores d of
        Inl e \<Rightarrow> Inl e
      | Inr ps \<Rightarrow> (case dict_getitem r POINTS_RECEIVED of
                    Inl e \<Rightarrow> Inl e | Inr x \<Rightarrow> Inr (ps @ [(u, x)])))"
  by (simp add: InMemoryStorage_get_users_and_scores_def dict_items_def list_comp_snoc
        split: sum.splits)

section \<open>The in-memory store: method bodies and the functions of the store\<close>

text \<open>
  Running a method's body gives the value and the store that the functions of the store
  give.
\<close>

lemma user_exists_method_eq:
  "InMemoryStorage_user_exists_method u d = (Inr (InMemoryStorage_user_exists d u), d)"
  by (simp add: InMemoryStorage_user_exists_method_def data_contains_def
        InMemoryStorage_user_exists_def)

lemma get_used_method_eq:
  "InMemoryStorage_get_user_points_used_method u d
     = (InMemoryStorage_get_user_points_used d u, d)"
  by (simp add: InMemoryStorage_get_user_points_used_method_def then_do_def data_getitem_def
        inner_get_def InMemoryStorage_get_user_points_used_def split: sum.splits)

lemma get_received_method_eq:
  "InMemoryStorage_get_user_points_received_method u d
     = (InMemoryStorage_get_user_points_received d u, d)"
  by (simp add: InMemoryStorage_get_user_points_received_method_def then_do_def data_getitem_def
        inner_get_def InMemoryStorage_get_user_points_received_def split: sum.splits)

lemma add_used_method_eq:
  "InMemoryStorage_add_user_points_used_method u n d
     = (Inr (), InMemoryStorage_add_user_points_used d u n)"
  by (simp add: InMemoryStorage_add_user_points_used_method_def then_do_def data_setdefault_def
        inner_get_def inner_setitem_def InMemoryStorage_add_user_points_used_def
        split: prod.splits)

lemma add_received_method_eq:
  "InMemoryStorage_add_user_points_received_method u n d
     = (Inr (), InMemoryStorage_add_user_points_received d u n)"
  by (simp add: InMemoryStorage_add_user_points_received_method_def then_do_def
        data_setdefault_def inner_get_def inner_setitem_def
        InMemoryStorage_add_user_points_received_def split: prod.splits)

lemma comprehension_reading:
  assumes "\<And>x data. body x data = (f x, data)"
  shows "comprehension body xs data = (list_comp f xs, data)"
  by (induction xs) (simp_all add: assms returns_def then_do_def split: sum.splits)

lemma get_users_and_scores_method_eq:
  "InMemoryStorage_get_users_and_scores_method d = (InMemoryStorage_get_users_and_scores d, d)"
proof -
  let ?body = "\<lambda>(k, v). then_do (inner_getitem v POINTS_RECEIVED) (\<lambda>r. returns (k, r))"
  let ?f = "\<lambda>(k, v). case dict_getitem v POINTS_RECEIVED of
                        Inl e \<Rightarrow> Inl e | Inr r \<Rightarrow> Inr (k, r)"
  have body: "?body x data = (?f x, data)" for x data
    by (cases x) (simp add: then_do_def inner_getitem_def returns_def split: sum.splits)
  have "comprehension ?body (dict_items d) d = (list_comp ?f (dict_items d), d)"
    by (rule comprehension_reading) (rule body)
  then show ?thesis
    unfolding InMemoryStorage_get_users_and_scores_method_def
      InMemoryStorage_get_users_and_scores_def then_do_def data_items_def
    by simp
qed

lemma write_creates_record:
  "fst (InMemoryStorage_user_exists_method u
          (snd (InMemoryStorage_add_user_points_used_method u n d))) = Inr True"
  "fst (InMemoryStorage_user_exists_method u
          (snd (InMemoryStorage_add_user_points_received_method u n d))) = Inr True"
  by (simp_all add: user_exists_method_eq add_used_method_eq add_received_method_eq
        exists_add_used exists_add_received)

lemmas method_eqs =
  user_exists_method_eq get_used_method_eq get_received_method_eq
  add_used_method_eq add_received_method_eq get_users_and_scores_method_eq

section \<open>Counters under calls with non-negative amounts\<close>

lemma inmemory_step_used:
  assumes "amount_nonneg c" "InMemoryStorage_get_user_points_used d u = Inr v"
  shows "\<exists>v'. InMemoryStorage_get_user_points_used (snd (InMemoryStorage_call c d)) u = Inr v'
            \<and> v \<le> v'"
  using assms
  by (cases c)
     (auto simp: invoke_def method_eqs get_used_eq exists_add_used exists_add_received
        user_data_of_add_used user_data_of_add_received dict_get_update fields_differ
        split: if_splits)

lemma inmemory_step_received:
  assumes "amount_nonneg c" "InMemoryStorage_get_user_points_received d u = Inr v"
  shows "\<exists>v'. InMemoryStorage_get_user_points_received (snd (InMemoryStorage_call c d)) u = Inr v'
            \<and> v \<le> v'"
  using assms
  by (cases c)
     (auto simp: invoke_def method_eqs get_received_eq exists_add_used exists_add_received
        user_data_of_add_used user_data_of_add_received dict_get_update fields_differ
        split: if_splits)

lemma inmemory_run_used:
  "list_all amount_nonneg cs \<Longrightarrow> InMemoryStorage_get_user_points_used d u = Inr v \<Longrightarrow>
   \<exists>v'. InMemoryStorage_get_user_points_used (InMemoryStorage_run cs d) u = Inr v' \<and> v \<le> v'"
proof (induction cs arbitrary: d v)
  case Nil
  then show ?case by simp
next
  case (Cons c cs)
  from Cons.prems obtain w
    where w: "InMemoryStorage_get_user_points_used (snd (InMemoryStorage_call c d)) u = Inr w"
      and vw: "v \<le> w"
    using inmemory_step_used [of c d u v] by auto
  from Cons.prems have "list_all amount_nonneg cs" by simp
  from Cons.IH [OF this w] obtain v'
    where "InMemoryStorage_get_user_points_used
             (InMemoryStorage_run cs (snd (InMemoryStorage_call c d))) u = Inr v'" and "w \<le> v'"
    by auto
  with vw show ?case by auto
qed

lemma inmemory_run_received:
  "list_all amount_nonneg cs \<Longrightarrow> InMemoryStorage_get_user_points_received d u = Inr v \<Longrightarrow>
   \<exists>v'. InMemoryStorage_get_user_points_received (InMemoryStorage_run cs d) u = Inr v' \<and> v \<le> v'"
proof (induction cs arbitrary: d v)
  case Nil
  then show ?case by simp
next
  case (Cons c cs)
  from Cons.prems obtain w
    where w: "InMemoryStorage_get_user_points_received (snd (InMemoryStorage_call c d)) u = Inr w"
      and vw: "v \<le> w"
    using inmemory_step_received [of c d u v] by auto
  from Cons.prems have "list_all amount_nonneg cs" by simp
  from Cons.IH [OF this w] obtain v'
    where "InMemoryStorage_get_user_points_received
             (InMemoryStorage_run cs (snd (InMemoryStorage_call c d))) u = Inr v'" and "w \<le> v'"
    by auto
  with vw show ?case by auto
qed

lemma hget_after_hincrby:
  assumes "0 \<le> n" "redis_hget db k f = Inr (Some v)"
  shows "\<exists>v'. redis_hget (snd (redis_hincrby db k' f' n)) k f = Inr (Some v') \<and> v \<le> v'"
  using assms
  by (auto simp: redis_hget_def redis_hincrby_def update_conv' Let_def
        split: option.splits rvalue.splits if_splits)

lemma redis_get_used_hget:
  "RedisStorage_get_user_points_used db u = Inr v
     \<longleftrightarrow> redis_hget db u POINTS_USED = Inr (Some v)"
  by (auto simp: RedisStorage_get_user_points_used_def py_int_def split: sum.splits option.splits)

lemma redis_get_received_hget:
  "RedisStorage_get_user_points_received db u = Inr v
     \<longleftrightarrow> redis_hget db u POINTS_RECEIVED = Inr (Some v)"
  by (auto simp: RedisStorage_get_user_points_received_def py_int_def
        split: sum.splits option.splits)

lemma redis_step_hget:
  assumes "amount_nonneg c" "redis_hget db k f = Inr (Some v)"
  shows "\<exists>v'. redis_hget (snd (RedisStorage_call c db)) k f = Inr (Some v') \<and> v \<le> v'"
proof (cases c)
  case (AddUserPointsUsed u n)
  with assms hget_after_hincrby [of n db k f v u POINTS_USED] show ?thesis
    by (auto simp: RedisStorage_add_user_points_used_def split: prod.splits sum.splits)
next
  case (AddUserPointsReceived u n)
  with assms hget_after_hincrby [of n db k f v u POINTS_RECEIVED] show ?thesis
    by (auto simp: RedisStorage_add_user_points_received_def split: prod.splits sum.splits)
qed (use assms in simp_all)

lemma redis_run_hget:
  "list_all amount_nonneg cs \<Longrightarrow> redis_hget db k f = Inr (Some v) \<Longrightarrow>
   \<exists>v'. redis_hget (RedisStorage_run cs db) k f = Inr (Some v') \<and> v \<le> v'"
proof (induction cs arbitrary: db v)
  case Nil
  then show ?case by simp
next
  case (Cons c cs)
  from Cons.prems obtain w
    where w: "redis_hget (snd (RedisStorage_call c db)) k f = Inr (Some w)" and vw: "v \<le> w"
    using redis_step_hget [of c db k f v] by auto
  from Cons.prems have "list_all amount_nonneg cs" by simp
  from Cons.IH [OF this w] obtain v'
    where "redis_hget (RedisStorage_run cs (snd (RedisStorage_call c db))) k f = Inr (Some v')"
      and "w \<le> v'"
    by auto
  with vw show ?case by auto
qed

section \<open>Claims\<close>

text \<open>
  C4. InMemoryStorage: on a fresh store \<open>user_exists\<close> is false for every user. After any
  non-empty sequence of \<open>add_user_points_used(u, n)\<close> calls on a fresh store,
  \<open>get_user_points_used(u)\<close> returns the sum of the amounts and \<open>user_exists(u)\<close> is true. The
  sequence is arbitrary, so this holds after each call of a longer sequence. The amounts need
  not be non-negative for it.
\<close>

theorem inmemory_used_is_sum:
  "\<not> InMemoryStorage_user_exists InMemoryStorage_init u \<and>
   (ns \<noteq> [] \<longrightarrow>
      InMemoryStorage_get_user_points_used
        (foldl (\<lambda>d n. InMemoryStorage_add_user_points_used d u n) InMemoryStorage_init ns) u
          = Inr (sum_list ns) \<and>
      InMemoryStorage_user_exists
        (foldl (\<lambda>d n. InMemoryStorage_add_user_points_used d u n) InMemoryStorage_init ns) u)"
  by (simp add: get_used_eq exists_after_adds used_after_adds fresh_store) (simp add: dict_get_def)

theorem inmemory_used_is_sum_witness:
  "\<not> InMemoryStorage_user_exists InMemoryStorage_init ''bob'' \<and> [5, 3 :: int] \<noteq> [] \<and>
   InMemoryStorage_get_user_points_used
     (foldl (\<lambda>d n. InMemoryStorage_add_user_points_used d ''bob'' n) InMemoryStorage_init [5, 3])
     ''bob'' = Inr 8 \<and>
   InMemoryStorage_user_exists
     (foldl (\<lambda>d n. InMemoryStorage_add_user_points_used d ''bob'' n) InMemoryStorage_init [5, 3])
     ''bob''"
  using inmemory_used_is_sum [of "''bob''" "[5, 3]"] by simp

text \<open>
  C5. InMemoryStorage, scenario C: a fresh store receives only
  \<open>add_user_points_used("carol", 2)\<close>; then \<open>get_users_and_scores()\<close> raises \<open>KeyError\<close>,
  because carol's inner dict has no \<open>POINTS_RECEIVED\<close> field.
\<close>

theorem inmemory_scores_used_only_raises:
  "InMemoryStorage_get_users_and_scores
     (InMemoryStorage_add_user_points_used InMemoryStorage_init ''carol'' 2) = Inl KeyError"
  by (simp add: InMemoryStorage_get_users_and_scores_def InMemoryStorage_add_user_points_used_def
        InMemoryStorage_init_def dict_init_def dict_setdefault_def dict_setitem_def dict_get_def
        dict_items_def dict_getitem_def POINTS_USED_def POINTS_RECEIVED_def)


text \<open>
  C3. InMemoryStorage: when \<open>user_id\<close> is not a key of the store, \<open>get_user_points_used\<close> and
  \<open>get_user_points_received\<close> raise \<open>KeyError\<close>; when it is a key and its inner dict lacks the
  counter's field, they return 0.
\<close>

theorem inmemory_get_missing_user_or_field:
  "(\<not> InMemoryStorage_user_exists d u \<longrightarrow>
      InMemoryStorage_get_user_points_used d u = Inl KeyError \<and>
      InMemoryStorage_get_user_points_received d u = Inl KeyError) \<and>
   (\<forall>r. dict_getitem d u = Inr r \<longrightarrow>
      (\<not> dict_contains r POINTS_USED \<longrightarrow> InMemoryStorage_get_user_points_used d u = Inr 0) \<and>
      (\<not> dict_contains r POINTS_RECEIVED \<longrightarrow>
         InMemoryStorage_get_user_points_received d u = Inr 0))"
  by (auto simp: InMemoryStorage_get_user_points_used_def
        InMemoryStorage_get_user_points_received_def InMemoryStorage_user_exists_def
        dict_contains_def dict_getitem_def dict_get_def split: option.splits)

theorem inmemory_get_missing_user_or_field_witness:
  "\<not> InMemoryStorage_user_exists [(''bob'', [])] ''dave'' \<and>
   InMemoryStorage_get_user_points_used [(''bob'', [])] ''dave'' = Inl KeyError \<and>
   InMemoryStorage_get_user_points_received [(''bob'', [])] ''dave'' = Inl KeyError \<and>
   dict_getitem [(''bob'', [])] ''bob'' = Inr ([] :: int pydict) \<and>
   \<not> dict_contains ([] :: int pydict) POINTS_USED \<and>
   \<not> dict_contains ([] :: int pydict) POINTS_RECEIVED \<and>
   InMemoryStorage_get_user_points_used [(''bob'', [])] ''bob'' = Inr 0 \<and>
   InMemoryStorage_get_user_points_received [(''bob'', [])] ''bob'' = Inr 0"
proof -
  have absent: "\<not> InMemoryStorage_user_exists [(''bob'', [])] ''dave''"
    by (simp add: InMemoryStorage_user_exists_def dict_contains_def)
  have present: "dict_getitem [(''bob'', [])] ''bob'' = Inr ([] :: int pydict)"
    by (simp add: dict_getitem_def)
  have no_field: "\<not> dict_contains ([] :: int pydict) POINTS_USED"
    "\<not> dict_contains ([] :: int pydict) POINTS_RECEIVED"
    by (simp_all add: dict_contains_def)
  show ?thesis
    using absent present no_field
      inmemory_get_missing_user_or_field [of "[(''bob'', [])]" "''dave''"]
      inmemory_get_missing_user_or_field [of "[(''bob'', [])]" "''bob''"]
    by blast
qed

text \<open>
  C7. InMemoryStorage: for any user and any store, \<open>add_user_points_received\<close> of 3 then 4, of
  4 then 3, and of 7 once leave the same \<open>get_user_points_received\<close> value; from the fresh
  store that value is 7.
\<close>

theorem inmemory_received_3_4_is_7:
  "InMemoryStorage_get_user_points_received
     (InMemoryStorage_add_user_points_received
        (InMemoryStorage_add_user_points_received d u 3) u 4) u
     = InMemoryStorage_get_user_points_received (InMemoryStorage_add_user_points_received d u 7) u
   \<and>
   InMemoryStorage_get_user_points_received
     (InMemoryStorage_add_user_points_received
        (InMemoryStorage_add_user_points_received d u 4) u 3) u
     = InMemoryStorage_get_user_points_received (InMemoryStorage_add_user_points_received d u 7) u
   \<and>
   InMemoryStorage_get_user_points_received
     (InMemoryStorage_add_user_points_received InMemoryStorage_init u 7) u = Inr 7"
  by (simp add: get_received_eq exists_add_received user_data_of_add_received dict_get_update
        fresh_store) (simp add: dict_get_def)

text \<open>
  C9. InMemoryStorage, frame of a write: \<open>add_user_points_used(u, n)\<close> leaves every field of
  \<open>u\<close> other than \<open>POINTS_USED\<close> as it was (present with the same value, or absent), leaves
  the entry of every other user as it was, and keeps the other users' entries in their
  order; \<open>add_user_points_received(u, n)\<close> likewise, with \<open>POINTS_RECEIVED\<close>.
\<close>

theorem inmemory_add_frame:
  "(\<forall>f. f \<noteq> POINTS_USED \<longrightarrow>
       map_of (user_data_of (InMemoryStorage_add_user_points_used d u n) u) f
         = map_of (user_data_of d u) f) \<and>
   (\<forall>u'. u' \<noteq> u \<longrightarrow> map_of (InMemoryStorage_add_user_points_used d u n) u' = map_of d u') \<and>
   filter (\<lambda>(k, v). k \<noteq> u) (InMemoryStorage_add_user_points_used d u n)
     = filter (\<lambda>(k, v). k \<noteq> u) d \<and>
   (\<forall>f. f \<noteq> POINTS_RECEIVED \<longrightarrow>
       map_of (user_data_of (InMemoryStorage_add_user_points_received d u n) u) f
         = map_of (user_data_of d u) f) \<and>
   (\<forall>u'. u' \<noteq> u \<longrightarrow>
       map_of (InMemoryStorage_add_user_points_received d u n) u' = map_of d u') \<and>
   filter (\<lambda>(k, v). k \<noteq> u) (InMemoryStorage_add_user_points_received d u n)
     = filter (\<lambda>(k, v). k \<noteq> u) d"
  by (simp add: user_data_of_add_used user_data_of_add_received update_conv')
     (simp add: add_used_eq add_received_eq filter_others_update update_conv')

theorem inmemory_add_frame_witness:
  "POINTS_RECEIVED \<noteq> POINTS_USED \<and> ''amy'' \<noteq> ''bob'' \<and>
   map_of (user_data_of
      (InMemoryStorage_add_user_points_used
         [(''amy'', [(POINTS_RECEIVED, 4)]), (''bob'', [(POINTS_USED, 1), (POINTS_RECEIVED, 2)])]
         ''bob'' 5) ''bob'') POINTS_RECEIVED = Some 2 \<and>
   map_of
      (InMemoryStorage_add_user_points_used
         [(''amy'', [(POINTS_RECEIVED, 4)]), (''bob'', [(POINTS_USED, 1), (POINTS_RECEIVED, 2)])]
         ''bob'' 5) ''amy'' = Some [(POINTS_RECEIVED, 4)] \<and>
   map_of (user_data_of
      (InMemoryStorage_add_user_points_received
         [(''amy'', [(POINTS_RECEIVED, 4)]), (''bob'', [(POINTS_USED, 1), (POINTS_RECEIVED, 2)])]
         ''bob'' 5) ''bob'') POINTS_USED = Some 1 \<and>
   map_of
      (InMemoryStorage_add_user_points_received
         [(''amy'', [(POINTS_RECEIVED, 4)]), (''bob'', [(POINTS_USED, 1), (POINTS_RECEIVED, 2)])]
         ''bob'' 5) ''amy'' = Some [(POINTS_RECEIVED, 4)]"
  using inmemory_add_frame
    [of "[(''amy'', [(POINTS_RECEIVED, 4)]), (''bob'', [(POINTS_USED, 1), (POINTS_RECEIVED, 2)])]"
        "''bob''" 5]
  by (simp add: user_data_of_eq fields_differ)

text \<open>
  C10. InMemoryStorage: running the body of \<open>user_exists\<close>, \<open>get_user_points_used\<close>,
  \<open>get_user_points_received\<close> or \<open>get_users_and_scores\<close> leaves the store as it was, also
  when the body raises. When \<open>user_exists\<close> returns false for a user, both getters raise
  \<open>KeyError\<close> for that user, and \<open>user_exists\<close> run on the store they leave still returns
  false: the lookup \<^verbatim>\<open>self._data[user_id]\<close> creates no record (the \<^verbatim>\<open>setdefault\<close> of the
  writes would).
\<close>

theorem inmemory_reads_keep_store:
  "snd (InMemoryStorage_user_exists_method u d) = d \<and>
   snd (InMemoryStorage_get_user_points_used_method u d) = d \<and>
   snd (InMemoryStorage_get_user_points_received_method u d) = d \<and>
   snd (InMemoryStorage_get_users_and_scores_method d) = d \<and>
   (fst (InMemoryStorage_user_exists_method u d) = Inr False \<longrightarrow>
      fst (InMemoryStorage_get_user_points_used_method u d) = Inl KeyError \<and>
      fst (InMemoryStorage_user_exists_method u
             (snd (InMemoryStorage_get_user_points_used_method u d))) = Inr False \<and>
      fst (InMemoryStorage_get_user_points_received_method u d) = Inl KeyError \<and>
      fst (InMemoryStorage_user_exists_method u
             (snd (InMemoryStorage_get_user_points_received_method u d))) = Inr False)"
proof -
  have used: "snd (InMemoryStorage_get_user_points_used_method u d) = d"
    by (simp add: InMemoryStorage_get_user_points_used_method_def then_do_def data_getitem_def
          inner_get_def split: sum.splits)
  have received: "snd (InMemoryStorage_get_user_points_received_method u d) = d"
    by (simp add: InMemoryStorage_get_user_points_received_method_def then_do_def
          data_getitem_def inner_get_def split: sum.splits)
  have scores: "snd (InMemoryStorage_get_users_and_scores_method d) = d"
    by (simp add: get_users_and_scores_method_eq)
  have unseen: "fst (InMemoryStorage_get_user_points_used_method u d) = Inl KeyError"
    "fst (InMemoryStorage_get_user_points_received_method u d) = Inl KeyError"
    if "fst (InMemoryStorage_user_exists_method u d) = Inr False"
    using that
    by (simp_all add: InMemoryStorage_user_exists_method_def data_contains_def dict_contains_def
          InMemoryStorage_get_user_points_used_method_def
          InMemoryStorage_get_user_points_received_method_def then_do_def data_getitem_def
          dict_getitem_def)
  show ?thesis
    using unseen by (simp add: used received scores)
      (simp add: InMemoryStorage_user_exists_method_def data_contains_def)
qed

theorem inmemory_reads_keep_store_witness:
  "fst (InMemoryStorage_user_exists_method ''dave'' [(''bob'', [(POINTS_USED, 1)])]) = Inr False \<and>
   snd (InMemoryStorage_get_users_and_scores_method [(''bob'', [(POINTS_USED, 1)])])
     = [(''bob'', [(POINTS_USED, 1)])] \<and>
   fst (InMemoryStorage_get_user_points_used_method ''dave'' [(''bob'', [(POINTS_USED, 1)])])
     = Inl KeyError \<and>
   snd (InMemoryStorage_get_user_points_used_method ''dave'' [(''bob'', [(POINTS_USED, 1)])])
     = [(''bob'', [(POINTS_USED, 1)])] \<and>
   fst (InMemoryStorage_user_exists_method ''dave''
          (snd (InMemoryStorage_get_user_points_used_method ''dave''
                  [(''bob'', [(POINTS_USED, 1)])]))) = Inr False"
proof -
  have unseen:
    "fst (InMemoryStorage_user_exists_method ''dave'' [(''bob'', [(POINTS_USED, 1)])]) = Inr False"
    by (simp add: InMemoryStorage_user_exists_method_def data_contains_def dict_contains_def)
  show ?thesis
    using unseen inmemory_reads_keep_store [of "''dave''" "[(''bob'', [(POINTS_USED, 1)])]"]
    by blast
qed

text \<open>
  C1. RedisStorage, first write for a new user. On a server with no keys,
  \<open>add_user_points_used("alice", 1)\<close> sends \<open>HINCRBY\<close> only: the key \<open>alice\<close> then holds a
  hash with the single field \<open>POINTS_USED\<close>, so \<open>user_exists\<close> is true, but the set under
  \<open>USERS_LIST\<close> was never written and \<open>get_users_and_scores\<close> returns the empty list; the
  field \<open>POINTS_RECEIVED\<close> was not set to 0 and \<open>get_user_points_received\<close> raises.
  \<open>_create_user_entry\<close>, which sets both fields and adds the user to the set, is not called.
\<close>

theorem redis_first_write_not_listed:
  "RedisStorage_add_user_points_used redis_init ''alice'' 1
     = (Inr (), [(''alice'', RHash [(POINTS_USED, 1)])]) \<and>
   RedisStorage_user_exists
     (snd (RedisStorage_add_user_points_used redis_init ''alice'' 1)) ''alice'' \<and>
   RedisStorage_get_users_and_scores
     (snd (RedisStorage_add_user_points_used redis_init ''alice'' 1)) = Inr [] \<and>
   RedisStorage_get_user_points_received
     (snd (RedisStorage_add_user_points_used redis_init ''alice'' 1)) ''alice'' = Inl TypeError"
  by (simp add: RedisStorage_add_user_points_used_def redis_hincrby_def redis_init_def in_int64_def
       RedisStorage_user_exists_def redis_exists_def RedisStorage_get_users_and_scores_def
       redis_smembers_def USERS_LIST_KEY_def RedisStorage_get_user_points_received_def
       redis_hget_def py_int_def POINTS_USED_def POINTS_RECEIVED_def)

text \<open>
  C2. RedisStorage, reading a user that was never seen. On a server with no keys \<open>hget\<close>
  returns \<open>None\<close> and \<open>int(None)\<close> raises \<open>TypeError\<close>: \<open>get_user_points_used("dave")\<close> and
  \<open>get_user_points_received("dave")\<close> raise instead of returning 0.
\<close>

theorem redis_get_unseen_raises:
  "RedisStorage_get_user_points_used redis_init ''dave'' = Inl TypeError \<and>
   RedisStorage_get_user_points_received redis_init ''dave'' = Inl TypeError"
  by (simp add: RedisStorage_get_user_points_used_def RedisStorage_get_user_points_received_def
        redis_hget_def redis_init_def py_int_def)

text \<open>
  C6. Two writes for the same new user, then enumeration. As stated for both backends and
  both write methods it fails: in memory, two \<open>add_user_points_used\<close> calls leave the user
  without a \<open>POINTS_RECEIVED\<close> field and \<open>get_users_and_scores\<close> raises; on Redis, two
  \<open>add_user_points_received\<close> calls leave the known-users set empty and the user is not listed.
\<close>

theorem new_user_two_writes_not_listed:
  "InMemoryStorage_get_users_and_scores
     (InMemoryStorage_add_user_points_used
        (InMemoryStorage_add_user_points_used InMemoryStorage_init ''dan'' 1) ''dan'' 1)
     = Inl KeyError \<and>
   RedisStorage_get_users_and_scores
     (snd (RedisStorage_add_user_points_received
        (snd (RedisStorage_add_user_points_received redis_init ''dan'' 1)) ''dan'' 1))
     = Inr []"
  by (simp add: InMemoryStorage_get_users_and_scores_def InMemoryStorage_add_user_points_used_def
        InMemoryStorage_init_def dict_init_def dict_setdefault_def dict_setitem_def dict_get_def
        dict_items_def dict_getitem_def POINTS_USED_def POINTS_RECEIVED_def
        RedisStorage_add_user_points_received_def redis_hincrby_def redis_init_def in_int64_def
        RedisStorage_get_users_and_scores_def redis_smembers_def USERS_LIST_KEY_def)

text \<open>
  C6, as the in-memory code has it. Let \<open>u\<close> be a user that is not in the store, and let every
  user in the store have a \<open>POINTS_RECEIVED\<close> field. After two writes for \<open>u\<close> of which at
  least one is \<open>add_user_points_received\<close>, \<open>get_users_and_scores\<close> returns a list in which
  \<open>u\<close> occurs exactly once. After two \<open>add_user_points_used\<close> calls it raises \<open>KeyError\<close>.
\<close>

theorem inmemory_new_user_listed_once:
  assumes new: "\<not> InMemoryStorage_user_exists d u"
    and others: "list_all (\<lambda>(k, v). dict_contains v POINTS_RECEIVED) (dict_items d)"
  shows
   "(\<exists>ps. InMemoryStorage_get_users_and_scores
            (InMemoryStorage_add_user_points_received
               (InMemoryStorage_add_user_points_received d u n) u m) = Inr ps \<and>
          count_list (map fst ps) u = 1) \<and>
    (\<exists>ps. InMemoryStorage_get_users_and_scores
            (InMemoryStorage_add_user_points_received
               (InMemoryStorage_add_user_points_used d u n) u m) = Inr ps \<and>
          count_list (map fst ps) u = 1) \<and>
    (\<exists>ps. InMemoryStorage_get_users_and_scores
            (InMemoryStorage_add_user_points_used
               (InMemoryStorage_add_user_points_received d u n) u m) = Inr ps \<and>
          count_list (map fst ps) u = 1) \<and>
    InMemoryStorage_get_users_and_scores
      (InMemoryStorage_add_user_points_used
         (InMemoryStorage_add_user_points_used d u n) u m) = Inl KeyError"
proof -
  from new have absent: "map_of d u = None"
    by (simp add: InMemoryStorage_user_exists_def dict_contains_def)
  from others obtain ps0 where ps0: "InMemoryStorage_get_users_and_scores d = Inr ps0"
    and keys: "map fst ps0 = map fst d"
    using scores_all_present by blast
  have cnt: "count_list (map fst ps0) u = 0"
    using keys absent by (simp add: count_absent)
  have snoc: "InMemoryStorage_get_users_and_scores (d @ [(u, r)]) =
      (case dict_getitem r POINTS_RECEIVED of
         Inl e \<Rightarrow> Inl e | Inr x \<Rightarrow> Inr (ps0 @ [(u, x)]))" for r
    by (simp add: scores_snoc ps0)
  have first: "AList.update u x d = d @ [(u, x)]" for x
    using absent by (rule update_absent)
  have second: "AList.update u y (d @ [(u, x)]) = d @ [(u, y)]" for x y
    using absent by (simp add: update_append_new update_absent)
  have ud: "user_data_of d u = []"
    using absent by (simp add: user_data_of_eq)
  have rr: "InMemoryStorage_add_user_points_received
               (InMemoryStorage_add_user_points_received d u n) u m
            = d @ [(u, [(POINTS_RECEIVED, n + m)])]"
    by (simp add: add_received_eq [of "InMemoryStorage_add_user_points_received d u n"]
          user_data_of_add_received dict_get_update)
       (simp add: add_received_eq first second ud dict_get_def)
  have ur: "InMemoryStorage_add_user_points_received
               (InMemoryStorage_add_user_points_used d u n) u m
            = d @ [(u, [(POINTS_USED, n), (POINTS_RECEIVED, m)])]"
    by (simp add: add_received_eq [of "InMemoryStorage_add_user_points_used d u n"]
          user_data_of_add_used dict_get_update fields_differ)
       (simp add: add_used_eq first second ud dict_get_def fields_differ)
  have ru: "InMemoryStorage_add_user_points_used
               (InMemoryStorage_add_user_points_received d u n) u m
            = d @ [(u, [(POINTS_RECEIVED, n), (POINTS_USED, m)])]"
    by (simp add: add_used_eq [of "InMemoryStorage_add_user_points_received d u n"]
          user_data_of_add_received dict_get_update fields_differ)
       (simp add: add_received_eq first second ud dict_get_def fields_differ)
  have uu: "InMemoryStorage_add_user_points_used
               (InMemoryStorage_add_user_points_used d u n) u m
            = d @ [(u, [(POINTS_USED, n + m)])]"
    by (simp add: add_used_eq [of "InMemoryStorage_add_user_points_used d u n"]
          user_data_of_add_used dict_get_update)
       (simp add: add_used_eq first second ud dict_get_def)
  show ?thesis
    unfolding rr ur ru uu snoc
    by (simp add: dict_getitem_def fields_differ cnt)
qed

theorem inmemory_new_user_listed_once_witness:
  "\<not> InMemoryStorage_user_exists [(''amy'', [(POINTS_RECEIVED, 4)])] ''bob'' \<and>
   list_all (\<lambda>(k, v). dict_contains v POINTS_RECEIVED)
     (dict_items [(''amy'', [(POINTS_RECEIVED, 4 :: int)])]) \<and>
   (\<exists>ps. InMemoryStorage_get_users_and_scores
            (InMemoryStorage_add_user_points_received
               (InMemoryStorage_add_user_points_received
                  [(''amy'', [(POINTS_RECEIVED, 4)])] ''bob'' 3) ''bob'' 4) = Inr ps \<and>
          count_list (map fst ps) ''bob'' = 1) \<and>
   InMemoryStorage_get_users_and_scores
     (InMemoryStorage_add_user_points_used
        (InMemoryStorage_add_user_points_used
           [(''amy'', [(POINTS_RECEIVED, 4)])] ''bob'' 3) ''bob'' 4) = Inl KeyError"
proof -
  have new: "\<not> InMemoryStorage_user_exists [(''amy'', [(POINTS_RECEIVED, 4)])] ''bob''"
    by (simp add: InMemoryStorage_user_exists_def dict_contains_def)
  have others: "list_all (\<lambda>(k, v). dict_contains v POINTS_RECEIVED)
     (dict_items [(''amy'', [(POINTS_RECEIVED, 4 :: int)])])"
    by (simp add: dict_items_def dict_contains_def)
  show ?thesis
    using new others inmemory_new_user_listed_once [OF new others, of 3 4] by blast
qed

text \<open>
  C8. Counters never decrease. As stated it fails: \<open>num\<close> is any integer and no method
  checks its sign. On a fresh in-memory store \<open>add_user_points_used("bob", 5)\<close> makes the
  counter read 5, and \<open>add_user_points_used("bob", -3)\<close> then makes it read 2.
\<close>

theorem counter_decreases_on_negative_amount:
  "InMemoryStorage_get_user_points_used
     (InMemoryStorage_run [AddUserPointsUsed ''bob'' 5] InMemoryStorage_init) ''bob'' = Inr 5 \<and>
   InMemoryStorage_get_user_points_used
     (InMemoryStorage_run [AddUserPointsUsed ''bob'' 5, AddUserPointsUsed ''bob'' (- 3)]
        InMemoryStorage_init) ''bob'' = Inr 2"
  by (simp add: invoke_def method_eqs get_used_eq exists_add_used user_data_of_add_used
        dict_get_update fresh_store)
     (simp add: dict_get_def)

text \<open>
  C8, as the code has it. Take any sequence of calls of the six methods in which every added
  amount is non-negative, on either backend and from any store. If a counter of user \<open>u\<close>
  read as \<open>v\<close> before the sequence, then after it the same read returns a value and that
  value is at least \<open>v\<close>. The sequence is arbitrary, so this compares any two reads of one
  run.
\<close>

theorem counters_monotone_nonneg:
  assumes "list_all amount_nonneg cs"
  shows
   "(InMemoryStorage_get_user_points_used d u = Inr v \<longrightarrow>
       (\<exists>v'. InMemoryStorage_get_user_points_used (InMemoryStorage_run cs d) u = Inr v'
             \<and> v \<le> v')) \<and>
    (InMemoryStorage_get_user_points_received d u = Inr v \<longrightarrow>
       (\<exists>v'. InMemoryStorage_get_user_points_received (InMemoryStorage_run cs d) u = Inr v'
             \<and> v \<le> v')) \<and>
    (RedisStorage_get_user_points_used db u = Inr v \<longrightarrow>
       (\<exists>v'. RedisStorage_get_user_points_used (RedisStorage_run cs db) u = Inr v'
             \<and> v \<le> v')) \<and>
    (RedisStorage_get_user_points_received db u = Inr v \<longrightarrow>
       (\<exists>v'. RedisStorage_get_user_points_received (RedisStorage_run cs db) u = Inr v'
             \<and> v \<le> v'))"
  using inmemory_run_used [OF assms, of d u v] inmemory_run_received [OF assms, of d u v]
    redis_run_hget [OF assms, of db u POINTS_USED v]
    redis_run_hget [OF assms, of db u POINTS_RECEIVED v]
  by (simp add: redis_get_used_hget redis_get_received_hget)

theorem counters_monotone_nonneg_witness:
  "list_all amount_nonneg
     [AddUserPointsUsed ''bob'' 3, GetUsersAndScores, AddUserPointsReceived ''bob'' 0,
      AddUserPointsUsed ''amy'' 1] \<and>
   InMemoryStorage_get_user_points_used
     [(''bob'', [(POINTS_USED, 5), (POINTS_RECEIVED, 5)])] ''bob'' = Inr 5 \<and>
   InMemoryStorage_get_user_points_received
     [(''bob'', [(POINTS_USED, 5), (POINTS_RECEIVED, 5)])] ''bob'' = Inr 5 \<and>
   RedisStorage_get_user_points_used
     [(''bob'', RHash [(POINTS_USED, 5), (POINTS_RECEIVED, 5)])] ''bob'' = Inr 5 \<and>
   RedisStorage_get_user_points_received
     [(''bob'', RHash [(POINTS_USED, 5), (POINTS_RECEIVED, 5)])] ''bob'' = Inr 5 \<and>
   (\<exists>v'. InMemoryStorage_get_user_points_used
      (InMemoryStorage_run
         [AddUserPointsUsed ''bob'' 3, GetUsersAndScores, AddUserPointsReceived ''bob'' 0,
          AddUserPointsUsed ''amy'' 1]
         [(''bob'', [(POINTS_USED, 5), (POINTS_RECEIVED, 5)])]) ''bob'' = Inr v' \<and> 5 \<le> v') \<and>
   (\<exists>v'. RedisStorage_get_user_points_received
      (RedisStorage_run
         [AddUserPointsUsed ''bob'' 3, GetUsersAndScores, AddUserPointsReceived ''bob'' 0,
          AddUserPointsUsed ''amy'' 1]
         [(''bob'', RHash [(POINTS_USED, 5), (POINTS_RECEIVED, 5)])]) ''bob'' = Inr v'
       \<and> 5 \<le> v')"
proof -
  have calls: "list_all amount_nonneg
     [AddUserPointsUsed ''bob'' 3, GetUsersAndScores, AddUserPointsReceived ''bob'' 0,
      AddUserPointsUsed ''amy'' 1]"
    by simp
  have reads:
    "InMemoryStorage_get_user_points_used
       [(''bob'', [(POINTS_USED, 5), (POINTS_RECEIVED, 5)])] ''bob'' = Inr 5"
    "InMemoryStorage_get_user_points_received
       [(''bob'', [(POINTS_USED, 5), (POINTS_RECEIVED, 5)])] ''bob'' = Inr 5"
    "RedisStorage_get_user_points_used
       [(''bob'', RHash [(POINTS_USED, 5), (POINTS_RECEIVED, 5)])] ''bob'' = Inr 5"
    "RedisStorage_get_user_points_received
       [(''bob'', RHash [(POINTS_USED, 5), (POINTS_RECEIVED, 5)])] ''bob'' = Inr 5"
    by (simp_all add: InMemoryStorage_get_user_points_used_def
          InMemoryStorage_get_user_points_received_def dict_getitem_def dict_get_def
          RedisStorage_get_user_points_used_def RedisStorage_get_user_points_received_def
          redis_hget_def py_int_def fields_differ)
  show ?thesis
    using calls reads
      counters_monotone_nonneg [OF calls,
        of "[(''bob'', [(POINTS_USED, 5), (POINTS_RECEIVED, 5)])]" "''bob''" 5
           "[(''bob'', RHash [(POINTS_USED, 5), (POINTS_RECEIVED, 5)])]"]
    by blast
qed

end
